theory Spec2Isabelle
  imports Main "HOL-Library.Sublist"
begin

section \<open>Monkee front end: the page controller of static/app.js\<close>

text \<open>
  The controller is a set of event handlers over module-level variables and a handful of
  DOM elements. Handlers never run concurrently; the only suspension points are the
  \<^verbatim>\<open>fetch\<close> of \<^verbatim>\<open>handleGenerate\<close> and the \<^verbatim>\<open>FileReader\<close> of
  \<^verbatim>\<open>createPreviewItem\<close>. The model is a record of everything the handlers read or
  write, one HOL function per handler, and an event type whose constructors are the
  listeners registered by \<^verbatim>\<open>setupEventListeners\<close> together with the completions of
  the asynchronous operations. The definitions follow the current revision of the file
  (the one with the \<^verbatim>\<open>isGenerating\<close> flag).
\<close>

subsection \<open>Strings\<close>

text \<open>
  \<^verbatim>\<open>String.prototype.trim\<close> strips white space and line terminators at both ends.
  A character here is a code unit below 256, so the members of that class in this range
  are covered: TAB, LF, VT, FF, CR, SPACE and the no-break space U+00A0. The others
  (U+FEFF, U+2028, U+2029 and the remaining space separators) lie outside the character
  type.
\<close>

definition js_whitespace :: "char \<Rightarrow> bool" where
  "js_whitespace c =
     (c \<in> set [CHR 0x09, CHR 0x0A, CHR 0x0B, CHR 0x0C, CHR 0x0D, CHR 0x20, CHR 0xA0])"

definition trim :: "string \<Rightarrow> string" where
  "trim s = rev (dropWhile js_whitespace (rev (dropWhile js_whitespace s)))"

text \<open>Decimal rendering of a number inside a template literal or a \<^verbatim>\<open>textContent\<close>.\<close>

definition digit_char :: "nat \<Rightarrow> char" where
  "digit_char d = char_of (of_char CHR ''0'' + d :: nat)"

function decimal :: "nat \<Rightarrow> string" where
  "decimal n = (if n div 10 = 0 then [digit_char n] else decimal (n div 10) @ [digit_char (n mod 10)])"
  by pat_completeness auto
termination
  by (relation "measure id") auto

declare decimal.simps [simp del]

definition js_number :: "int \<Rightarrow> string" where
  "js_number i = (if i < 0 then CHR ''-'' # decimal (nat (- i)) else decimal (nat i))"

text \<open>\<^verbatim>\<open>a || b\<close> on strings: the empty string is falsy.\<close>

definition js_or :: "string \<Rightarrow> string \<Rightarrow> string" where
  "js_or a b = (if a \<noteq> [] then a else b)"

text \<open>
  \<^verbatim>\<open>xs.slice(0, end)\<close>: a negative \<^verbatim>\<open>end\<close> counts from the end of the array, and
  the result is clamped to the array.
\<close>

definition js_slice0 :: "'a list \<Rightarrow> int \<Rightarrow> 'a list" where
  "js_slice0 xs e = (if e < 0 then take (nat (int (length xs) + e)) xs else take (nat e) xs)"

text \<open>\<^verbatim>\<open>xs.splice(i, 1)\<close> for an index \<^verbatim>\<open>i \<ge> 0\<close>: past the end nothing is removed.\<close>

definition js_splice1 :: "nat \<Rightarrow> 'a list \<Rightarrow> 'a list" where
  "js_splice1 i xs = take i xs @ drop (Suc i) xs"

subsection \<open>Data\<close>

record jsfile =
  file_name :: string
  file_type :: string

text \<open>A rendered child of \<^verbatim>\<open>previewGrid\<close>: the file it shows and its \<^verbatim>\<open>dataset.index\<close>.\<close>

record preview_item =
  item_file :: jsfile
  item_index :: nat

text \<open>The form data of one \<^verbatim>\<open>POST /api/generate\<close>.\<close>

record request =
  req_prompt :: string
  req_aspect_ratio :: string
  req_images :: "jsfile list"

text \<open>
  The JSON body of a response, with the fields the handler reads. Each may be absent;
  when present they have the types of the backend interface (\<^verbatim>\<open>detail\<close> and
  \<^verbatim>\<open>image\<close> strings, \<^verbatim>\<open>success\<close> a boolean).
\<close>

record response_data =
  detail :: "string option"
  success :: "bool option"
  image :: "string option"

text \<open>
  \<^verbatim>\<open>await fetch(...)\<close> either rejects (with an error carrying a message) or yields a
  response with an HTTP status. \<^verbatim>\<open>await response.json()\<close> either rejects or yields
  the data; \<open>Unparsable m\<close> is a body whose reading throws an error with message \<open>m\<close>
  (malformed JSON, or a JSON \<^verbatim>\<open>null\<close>, whose fields cannot be read).
\<close>

datatype body = Unparsable string | Json response_data

datatype fetch_outcome = NetworkError string | Response nat body

datatype health_outcome = HealthConfigured | HealthNotConfigured | HealthUnreachable

record state =
  uploadedFiles :: "jsfile list"
  isGenerating :: bool
  promptValue :: string
  charCountText :: string
  aspectRatioValue :: string
  btnDisabled :: bool
  btnTextHidden :: bool
  btnLoaderHidden :: bool
  errorHidden :: bool
  errorText :: string
  resultHidden :: bool
  resultImageSrc :: string
  previewGrid :: "preview_item list"
  readers :: "(jsfile \<times> nat) list"
  requests :: "request list"
  timers :: nat

text \<open>
  \<open>readers\<close> are the \<^verbatim>\<open>FileReader\<close>s whose \<^verbatim>\<open>onload\<close> has not run yet (file and the
  index captured by the closure), \<open>requests\<close> the \<^verbatim>\<open>fetch\<close>es to
  \<^verbatim>\<open>/api/generate\<close> that have not settled, \<open>timers\<close> the pending
  \<^verbatim>\<open>setTimeout(hideError, 3000)\<close>.
\<close>

definition MAX_FILES :: int where
  "MAX_FILES = 14"

subsection \<open>Notification surface\<close>

definition showError :: "string \<Rightarrow> state \<Rightarrow> state" where
  "showError message s = s\<lparr>errorText := message, errorHidden := False\<rparr>"

definition hideError :: "state \<Rightarrow> state" where
  "hideError s = s\<lparr>errorHidden := True, errorText := []\<rparr>"

subsection \<open>Trigger control\<close>

definition updateGenerateButton :: "state \<Rightarrow> state" where
  "updateGenerateButton s =
     (let hasPrompt = (length (trim (promptValue s)) > 0)
      in s\<lparr>btnDisabled := (\<not> hasPrompt \<or> isGenerating s)\<rparr>)"

definition setLoading :: "bool \<Rightarrow> state \<Rightarrow> state" where
  "setLoading loading s =
     (if loading
      then s\<lparr>btnDisabled := True, btnTextHidden := True, btnLoaderHidden := False\<rparr>
      else updateGenerateButton (s\<lparr>btnTextHidden := False, btnLoaderHidden := True\<rparr>))"

definition handlePromptInput :: "state \<Rightarrow> state" where
  "handlePromptInput s =
     hideError (updateGenerateButton (s\<lparr>charCountText := decimal (length (promptValue s))\<rparr>))"

subsection \<open>Attachments and previews\<close>

text \<open>
  \<^verbatim>\<open>createPreviewItem\<close> only starts a reader; the item is appended to the grid when the
  reader's \<^verbatim>\<open>onload\<close> runs, which is a later event.
\<close>

definition createPreviewItem :: "jsfile \<Rightarrow> nat \<Rightarrow> state \<Rightarrow> state" where
  "createPreviewItem f index s = s\<lparr>readers := readers s @ [(f, index)]\<rparr>"

definition reader_onload :: "nat \<Rightarrow> state \<Rightarrow> state" where
  "reader_onload k s =
     (if k < length (readers s)
      then (let (f, index) = readers s ! k
            in s\<lparr>previewGrid := previewGrid s @ [\<lparr>item_file = f, item_index = index\<rparr>],
                 readers := take k (readers s) @ drop (Suc k) (readers s)\<rparr>)
      else s)"

definition push_file :: "state \<Rightarrow> jsfile \<Rightarrow> state" where
  "push_file s f =
     (let s1 = s\<lparr>uploadedFiles := uploadedFiles s @ [f]\<rparr>
      in createPreviewItem f (length (uploadedFiles s1) - 1) s1)"

definition capacity_message :: "int \<Rightarrow> string" where
  "capacity_message remainingSlots =
     ''Maximum '' @ js_number MAX_FILES @ '' images allowed. Only ''
       @ js_number remainingSlots @ '' more can be added.''"

definition addFiles :: "jsfile list \<Rightarrow> state \<Rightarrow> state" where
  "addFiles files s =
     (let remainingSlots = MAX_FILES - int (length (uploadedFiles s));
          filesToAdd = js_slice0 files remainingSlots;
          s1 = (if int (length files) > remainingSlots
                then showError (capacity_message remainingSlots) s else s);
          s2 = foldl push_file s1 filesToAdd
      in hideError (updateGenerateButton s2))"

definition handleFileSelect :: "jsfile list \<Rightarrow> state \<Rightarrow> state" where
  "handleFileSelect files s = addFiles files s"

definition handleDrop :: "jsfile list \<Rightarrow> state \<Rightarrow> state" where
  "handleDrop files s = addFiles (filter (\<lambda>f. prefix ''image/'' (file_type f)) files) s"

definition rebuildPreviewGrid :: "state \<Rightarrow> state" where
  "rebuildPreviewGrid s =
     foldl (\<lambda>st (f, index). createPreviewItem f index st) (s\<lparr>previewGrid := []\<rparr>)
       (zip (uploadedFiles s) [0 ..< length (uploadedFiles s)])"

definition removeFile :: "nat \<Rightarrow> state \<Rightarrow> state" where
  "removeFile index s =
     updateGenerateButton (rebuildPreviewGrid (s\<lparr>uploadedFiles := js_splice1 index (uploadedFiles s)\<rparr>))"

subsection \<open>Generation\<close>

text \<open>
  \<^verbatim>\<open>handleGenerate\<close> up to its first \<^verbatim>\<open>await\<close>: the two guards, the switch to the
  loading state and the request, which captures the trimmed prompt, the aspect ratio and
  the attachments of that moment.
\<close>

definition handleGenerate :: "state \<Rightarrow> state" where
  "handleGenerate s =
     (let prompt = trim (promptValue s)
      in if prompt = [] then showError ''Please enter a prompt to generate an image.'' s
         else if isGenerating s then s
         else (let s1 = s\<lparr>isGenerating := True\<rparr>;
                   s2 = setLoading True s1;
                   s3 = hideError s2;
                   s4 = s3\<lparr>resultHidden := True\<rparr>
               in s4\<lparr>requests := requests s4 @
                      [\<lparr>req_prompt = prompt, req_aspect_ratio = aspectRatioValue s4,
                        req_images = uploadedFiles s4\<rparr>]\<rparr>))"

definition response_ok :: "nat \<Rightarrow> bool" where
  "response_ok status = (200 \<le> status \<and> status \<le> 299)"

text \<open>
  The body of the \<^verbatim>\<open>try\<close> after the request has settled: \<open>Inr\<close> the image to show,
  \<open>Inl\<close> the message of the error thrown.
\<close>

definition try_response :: "fetch_outcome \<Rightarrow> string + string" where
  "try_response outcome =
     (case outcome of
        NetworkError m \<Rightarrow> Inl m
      | Response status b \<Rightarrow>
          (case b of
             Unparsable m \<Rightarrow> Inl m
           | Json d \<Rightarrow>
               if \<not> response_ok status
               then Inl (js_or (case detail d of None \<Rightarrow> [] | Some t \<Rightarrow> t) ''Failed to generate image'')
               else if success d = Some True \<and> image d \<noteq> None \<and> image d \<noteq> Some []
               then Inr (the (image d))
               else Inl ''No image was generated''))"

text \<open>The rest of \<^verbatim>\<open>handleGenerate\<close>, run when the request settles: try, catch, finally.\<close>

definition handleGenerate_resume :: "fetch_outcome \<Rightarrow> state \<Rightarrow> state" where
  "handleGenerate_resume outcome s =
     (let s1 = (case try_response outcome of
                  Inr img \<Rightarrow> s\<lparr>resultImageSrc := img, resultHidden := False\<rparr>
                | Inl m \<Rightarrow> showError (js_or m ''An error occurred while generating the image.'') s)
      in setLoading False (s1\<lparr>isGenerating := False\<rparr>))"

definition handleNewGeneration :: "state \<Rightarrow> state" where
  "handleNewGeneration s =
     (let s1 = s\<lparr>uploadedFiles := [], previewGrid := []\<rparr>;
          s2 = s1\<lparr>promptValue := [], charCountText := ''0''\<rparr>;
          s3 = s2\<lparr>resultHidden := True, resultImageSrc := []\<rparr>;
          s4 = hideError s3;
          s5 = s4\<lparr>isGenerating := False\<rparr>
      in updateGenerateButton s5)"

subsection \<open>Start-up check and share fallback\<close>

definition checkApiHealth :: "health_outcome \<Rightarrow> state \<Rightarrow> state" where
  "checkApiHealth h s =
     (case h of
        HealthConfigured \<Rightarrow> s
      | HealthNotConfigured \<Rightarrow>
          showError ''API key not configured. Please set GOOGLE_API_KEY environment variable.'' s
      | HealthUnreachable \<Rightarrow>
          showError ''Unable to connect to the server. Please try again later.'' s)"

text \<open>
  \<^verbatim>\<open>handleShare\<close> touches the modelled state only on its two notice paths, each of
  which also arms a timer that hides the notice.
\<close>

definition handleShare_notice :: "string \<Rightarrow> state \<Rightarrow> state" where
  "handleShare_notice message s =
     (if resultImageSrc s = [] then s
      else (showError message s)\<lparr>timers := Suc (timers s)\<rparr>)"

definition timer_fires :: "state \<Rightarrow> state" where
  "timer_fires s = (if timers s = 0 then s else hideError (s\<lparr>timers := timers s - 1\<rparr>))"

subsection \<open>Events\<close>

datatype event =
    PromptInput string
  | FileSelect "jsfile list"
  | Drop "jsfile list"
  | DecodeDone nat
  | ClickRemove nat
  | ClickGenerate
  | GenerateDone nat fetch_outcome
  | ClickNewGeneration
  | HealthDone health_outcome
  | ShareUnsupported
  | ShareFailed
  | TimerFires

text \<open>
  \<open>PromptInput v\<close> is an edit of the prompt field to \<open>v\<close> (or a click on a suggested
  prompt, which sets the value and calls the same handler). \<open>DecodeDone k\<close> is the
  \<^verbatim>\<open>onload\<close> of the \<open>k\<close>-th pending reader, \<open>ClickRemove k\<close> a click on the remove
  control of the \<open>k\<close>-th rendered item, \<open>GenerateDone k r\<close> the settling of the \<open>k\<close>-th
  pending request with outcome \<open>r\<close>. An event that names a reader, item or request that
  does not exist cannot occur and leaves the state as it is.
\<close>

definition step :: "state \<Rightarrow> event \<Rightarrow> state" where
  "step s e =
     (case e of
        PromptInput v \<Rightarrow> handlePromptInput (s\<lparr>promptValue := v\<rparr>)
      | FileSelect files \<Rightarrow> handleFileSelect files s
      | Drop files \<Rightarrow> handleDrop files s
      | DecodeDone k \<Rightarrow> reader_onload k s
      | ClickRemove k \<Rightarrow>
          (if k < length (previewGrid s) then removeFile (item_index (previewGrid s ! k)) s else s)
      | ClickGenerate \<Rightarrow> handleGenerate s
      | GenerateDone k r \<Rightarrow>
          (if k < length (requests s)
           then handleGenerate_resume r (s\<lparr>requests := take k (requests s) @ drop (Suc k) (requests s)\<rparr>)
           else s)
      | ClickNewGeneration \<Rightarrow> handleNewGeneration s
      | HealthDone h \<Rightarrow> checkApiHealth h s
      | ShareUnsupported \<Rightarrow>
          handleShare_notice ''Share not supported on this device. Please use Download instead.'' s
      | ShareFailed \<Rightarrow> handleShare_notice ''Unable to share. Please use Download instead.'' s
      | TimerFires \<Rightarrow> timer_fires s)"

definition run :: "state \<Rightarrow> event list \<Rightarrow> state" where
  "run s es = foldl step s es"

text \<open>
  Modelled from the spec: the page markup (index.html) is not part of the sources, so the
  state of the DOM at load time is taken from the spec's reset values, which it calls the
  initial values: no attachments, empty prompt, result hidden, error hidden, trigger
  control disabled. The module-level variables are as the script initialises them.
\<close>

definition init :: state where
  "init = \<lparr>uploadedFiles = [], isGenerating = False, promptValue = [], charCountText = ''0'',
           aspectRatioValue = ''1:1'', btnDisabled = True, btnTextHidden = False,
           btnLoaderHidden = True, errorHidden = True, errorText = [], resultHidden = True,
           resultImageSrc = [], previewGrid = [], readers = [], requests = [], timers = 0\<rparr>"

subsection \<open>Notions used by the properties\<close>

text \<open>The trigger control follows the prompt and the busy flag.\<close>

definition btn_inv :: "state \<Rightarrow> bool" where
  "btn_inv s = ((\<not> btnDisabled s) = (trim (promptValue s) \<noteq> [] \<and> \<not> isGenerating s))"

text \<open>The busy flag tells whether a request is pending, and at most one is.\<close>

definition busy_inv :: "state \<Rightarrow> bool" where
  "busy_inv s = (isGenerating s = (requests s \<noteq> []) \<and> length (requests s) \<le> 1)"

text \<open>A sequence of \<^verbatim>\<open>addFiles\<close> calls, one per batch.\<close>

definition add_all :: "jsfile list list \<Rightarrow> state \<Rightarrow> state" where
  "add_all batches s = foldl (\<lambda>st files. addFiles files st) s batches"

text \<open>The rendered grid as (file, index) pairs, in DOM order.\<close>

definition rendered :: "state \<Rightarrow> (jsfile \<times> nat) list" where
  "rendered s = map (\<lambda>it. (item_file it, item_index it)) (previewGrid s)"

text \<open>The attachment collection with the position of each attachment.\<close>

definition indexed :: "state \<Rightarrow> (jsfile \<times> nat) list" where
  "indexed s = zip (uploadedFiles s) [0 ..< length (uploadedFiles s)]"

text \<open>All pending decodes complete, oldest first.\<close>

definition decode_in_order :: "state \<Rightarrow> state" where
  "decode_in_order s = run s (replicate (length (readers s)) (DecodeDone 0))"

text \<open>Sample inputs.\<close>

definition png :: "string \<Rightarrow> jsfile" where
  "png name = \<lparr>file_name = name, file_type = ''image/png''\<rparr>"

definition fifteen_files :: "jsfile list" where
  "fifteen_files = map (\<lambda>n. png (decimal n)) [0 ..< 15]"

definition quota_response :: "nat \<Rightarrow> fetch_outcome" where
  "quota_response status =
     Response status (Json \<lparr>detail = Some ''quota exceeded'', success = Some False, image = None\<rparr>)"

definition image_response :: fetch_outcome where
  "image_response =
     Response 200 (Json \<lparr>detail = None, success = Some True, image = Some ''data:image/png;base64,AA==''\<rparr>)"

section \<open>Properties\<close>

subsection \<open>Attachment manager\<close>

lemmas surface_defs = showError_def hideError_def updateGenerateButton_def setLoading_def

lemma foldl_push_file_frame:
  "promptValue (foldl push_file s fs) = promptValue s"
  "isGenerating (foldl push_file s fs) = isGenerating s"
  "btnDisabled (foldl push_file s fs) = btnDisabled s"
  "errorHidden (foldl push_file s fs) = errorHidden s"
  "errorText (foldl push_file s fs) = errorText s"
  "previewGrid (foldl push_file s fs) = previewGrid s"
  "requests (foldl push_file s fs) = requests s"
  by (induction fs arbitrary: s) (simp_all add: push_file_def createPreviewItem_def Let_def)

lemma foldl_push_file_uploaded:
  "uploadedFiles (foldl push_file s fs) = uploadedFiles s @ fs"
  by (induction fs arbitrary: s) (simp_all add: push_file_def createPreviewItem_def Let_def)

lemma zip_upt_Cons: "zip (f # fs) [n ..< n + Suc (length fs)] = (f, n) # zip fs [Suc n ..< Suc n + length fs]"
proof -
  have "[n ..< n + Suc (length fs)] = n # [Suc n ..< n + Suc (length fs)]"
    by (rule upt_conv_Cons) simp
  moreover have "n + Suc (length fs) = Suc n + length fs"
    by simp
  ultimately show ?thesis
    by (simp only: zip_Cons_Cons)
qed

lemma foldl_push_file_readers:
  "readers (foldl push_file s fs) =
     readers s @ zip fs [length (uploadedFiles s) ..< length (uploadedFiles s) + length fs]"
proof (induction fs arbitrary: s)
  case Nil
  then show ?case by simp
next
  case (Cons f fs)
  have "readers (push_file s f) = readers s @ [(f, length (uploadedFiles s))]"
    by (simp add: push_file_def createPreviewItem_def Let_def)
  moreover have "length (uploadedFiles (push_file s f)) = Suc (length (uploadedFiles s))"
    by (simp add: push_file_def createPreviewItem_def Let_def)
  ultimately show ?case
    using Cons.IH [of "push_file s f"] zip_upt_Cons [of f fs "length (uploadedFiles s)"]
    by simp
qed

lemma addFiles_uploaded:
  "uploadedFiles (addFiles files s) =
     uploadedFiles s @ js_slice0 files (MAX_FILES - int (length (uploadedFiles s)))"
  by (simp add: addFiles_def Let_def surface_defs foldl_push_file_uploaded)

lemma addFiles_error:
  "errorHidden (addFiles files s)" "errorText (addFiles files s) = []"
  by (simp_all add: addFiles_def Let_def hideError_def)

lemma addFiles_frame:
  "promptValue (addFiles files s) = promptValue s"
  "isGenerating (addFiles files s) = isGenerating s"
  "previewGrid (addFiles files s) = previewGrid s"
  "requests (addFiles files s) = requests s"
  by (simp_all add: addFiles_def Let_def surface_defs foldl_push_file_frame)

lemma addFiles_readers:
  "readers (addFiles files s) =
     readers s @ zip (js_slice0 files (MAX_FILES - int (length (uploadedFiles s))))
       [length (uploadedFiles s) ..<
        length (uploadedFiles s) + length (js_slice0 files (MAX_FILES - int (length (uploadedFiles s))))]"
  by (simp add: addFiles_def Let_def surface_defs foldl_push_file_readers foldl_push_file_uploaded)

lemma js_slice0_capacity:
  "int n \<le> MAX_FILES \<Longrightarrow> js_slice0 files (MAX_FILES - int n) = take (14 - n) files"
  by (simp add: js_slice0_def MAX_FILES_def nat_diff_distrib')

lemma addFiles_bound:
  "int (length (uploadedFiles s)) \<le> MAX_FILES \<Longrightarrow> int (length (uploadedFiles (addFiles files s))) \<le> MAX_FILES"
  by (simp add: addFiles_uploaded js_slice0_capacity) (simp add: MAX_FILES_def)

lemma add_all_snoc: "add_all (batches @ [files]) s = addFiles files (add_all batches s)"
  by (simp add: add_all_def)

lemma add_all_bound: "int (length (uploadedFiles (add_all batches init))) \<le> MAX_FILES"
proof (induction batches rule: rev_induct)
  case Nil
  show ?case by (simp add: add_all_def init_def MAX_FILES_def)
next
  case (snoc files batches)
  then show ?case by (simp add: add_all_snoc addFiles_bound)
qed

lemma length_fifteen_files: "length fifteen_files = 15"
  by (simp add: fifteen_files_def)

text \<open>
  C3. Whatever sequence of \<^verbatim>\<open>addFiles\<close> calls is made from the empty collection, the
  collection never holds more than \<^verbatim>\<open>MAX_FILES\<close> = 14 attachments, and one more call
  appends the first files of its input that still fit and drops the rest. The handler has
  no path that throws: it is a total function of its input and the state.
\<close>

theorem addFiles_never_exceeds_capacity:
  "int (length (uploadedFiles (add_all batches init))) \<le> MAX_FILES \<and>
   uploadedFiles (addFiles files (add_all batches init)) =
     uploadedFiles (add_all batches init) @
       take (14 - length (uploadedFiles (add_all batches init))) files"
  using add_all_bound [of batches]
  by (simp add: addFiles_uploaded js_slice0_capacity)

theorem addFiles_never_exceeds_capacity_witness:
  "int (length (uploadedFiles (add_all [fifteen_files] init))) \<le> MAX_FILES \<and>
   uploadedFiles (addFiles [png ''late.png''] (add_all [fifteen_files] init)) =
     take 14 fifteen_files"
  using addFiles_never_exceeds_capacity [of "[fifteen_files]" "[png ''late.png'']"]
  by (simp add: add_all_def addFiles_uploaded js_slice0_def MAX_FILES_def init_def
      length_fifteen_files)

text \<open>
  C8. Fifteen image files added in one call to the empty collection should leave the
  first fourteen in the collection and a capacity notice on display. The first fourteen
  are kept; the notice is set by \<^verbatim>\<open>showError\<close> and then cleared by the
  \<^verbatim>\<open>hideError\<close> that ends the same call, so when the call returns the error surface
  is hidden and its text is empty.
\<close>

theorem addFiles_fifteen_notice_hidden:
  "uploadedFiles (addFiles fifteen_files init) = take 14 fifteen_files \<and>
   length (uploadedFiles (addFiles fifteen_files init)) = 14 \<and>
   errorHidden (addFiles fifteen_files init) \<and>
   errorText (addFiles fifteen_files init) = []"
  by (simp add: addFiles_uploaded addFiles_error js_slice0_def MAX_FILES_def init_def
      length_fifteen_files)

text \<open>
  C10. Every call to \<^verbatim>\<open>addFiles\<close>, from any state and with any input (empty, or
  larger than the remaining capacity), returns with the error surface hidden and the error
  text empty; an error shown before the call is gone after it.
\<close>

theorem addFiles_hides_error:
  "errorHidden (addFiles files s) \<and> errorText (addFiles files s) = []"
  by (simp add: addFiles_error)

theorem addFiles_hides_error_witness:
  "\<not> errorHidden (showError ''Unable to share. Please use Download instead.'' init) \<and>
   errorHidden (addFiles [] (showError ''Unable to share. Please use Download instead.'' init)) \<and>
   errorText (addFiles [] (showError ''Unable to share. Please use Download instead.'' init)) = []"
  using addFiles_hides_error [of "[]" "showError ''Unable to share. Please use Download instead.'' init"]
  by (simp add: showError_def)

subsection \<open>Reachable states\<close>

lemmas handler_defs = handlePromptInput_def handleFileSelect_def handleDrop_def reader_onload_def
  removeFile_def rebuildPreviewGrid_def handleGenerate_def handleGenerate_resume_def
  handleNewGeneration_def checkApiHealth_def handleShare_notice_def timer_fires_def

lemmas eval_defs = run_def step_def handler_defs surface_defs init_def trim_def js_whitespace_def
  Let_def js_or_def try_response_def response_ok_def

lemma foldl_createPreviewItem_frame:
  "promptValue (foldl (\<lambda>st (f, index). createPreviewItem f index st) s ps) = promptValue s"
  "isGenerating (foldl (\<lambda>st (f, index). createPreviewItem f index st) s ps) = isGenerating s"
  "btnDisabled (foldl (\<lambda>st (f, index). createPreviewItem f index st) s ps) = btnDisabled s"
  "requests (foldl (\<lambda>st (f, index). createPreviewItem f index st) s ps) = requests s"
  "uploadedFiles (foldl (\<lambda>st (f, index). createPreviewItem f index st) s ps) = uploadedFiles s"
  "previewGrid (foldl (\<lambda>st (f, index). createPreviewItem f index st) s ps) = previewGrid s"
  by (induction ps arbitrary: s) (simp_all add: createPreviewItem_def split: prod.splits)

lemma foldl_createPreviewItem_readers:
  "readers (foldl (\<lambda>st (f, index). createPreviewItem f index st) s ps) = readers s @ ps"
  by (induction ps arbitrary: s) (simp_all add: createPreviewItem_def split: prod.splits)

lemma step_btn_inv: "btn_inv s \<Longrightarrow> btn_inv (step s e)"
  by (cases e)
    (auto simp: step_def btn_inv_def handler_defs surface_defs addFiles_frame addFiles_def Let_def
      foldl_push_file_frame foldl_createPreviewItem_frame
      split: prod.splits sum.splits health_outcome.splits)

lemma run_snoc: "run s (es @ [e]) = step (run s es) e"
  by (simp add: run_def)

lemma run_btn_inv: "btn_inv (run init es)"
proof (induction es rule: rev_induct)
  case Nil
  show ?case by (simp add: run_def btn_inv_def init_def trim_def)
next
  case (snoc e es)
  then show ?case by (simp add: run_snoc step_btn_inv)
qed

subsection \<open>Trigger control and generation\<close>

text \<open>
  In every state reachable from the initial page by any sequence of events, the trigger
  control follows the prompt and the busy flag \<^verbatim>\<open>isGenerating\<close>.
\<close>

lemma trigger_follows_busy_flag:
  "(\<not> btnDisabled (run init es)) =
     (trim (promptValue (run init es)) \<noteq> [] \<and> \<not> isGenerating (run init es))"
  using run_btn_inv [of es] by (simp add: btn_inv_def)

text \<open>
  C1. The trigger control should be enabled exactly when the trimmed prompt is non-empty
  and no generation request is pending. \<^verbatim>\<open>updateGenerateButton\<close> reads the flag
  \<^verbatim>\<open>isGenerating\<close> ("not currently generating"), and \<^verbatim>\<open>handleNewGeneration\<close>
  clears that flag while the request is still pending. Prompt, generate, reset, prompt:
  the control is enabled although the first request has not settled.
\<close>

theorem trigger_enabled_while_request_pending:
  "trim (promptValue (run init [PromptInput ''a'', ClickGenerate, ClickNewGeneration, PromptInput ''b''])) \<noteq> [] \<and>
   \<not> btnDisabled (run init [PromptInput ''a'', ClickGenerate, ClickNewGeneration, PromptInput ''b'']) \<and>
   \<not> isGenerating (run init [PromptInput ''a'', ClickGenerate, ClickNewGeneration, PromptInput ''b'']) \<and>
   requests (run init [PromptInput ''a'', ClickGenerate, ClickNewGeneration, PromptInput ''b'']) =
     [\<lparr>req_prompt = ''a'', req_aspect_ratio = ''1:1'', req_images = []\<rparr>]"
  by (simp add: eval_defs)

text \<open>
  C2. At most one generation request should be pending in any reachable state. The guard
  of \<^verbatim>\<open>handleGenerate\<close> tests \<^verbatim>\<open>isGenerating\<close>, and \<^verbatim>\<open>handleNewGeneration\<close>
  clears that flag without waiting for the pending request. Prompt, generate, reset,
  prompt, generate: the control is enabled before both clicks on it, and after the second
  one two requests are pending.
\<close>

theorem reset_allows_second_request:
  "\<not> btnDisabled (run init [PromptInput ''a'']) \<and>
   requests (run init [PromptInput ''a'', ClickGenerate]) =
     [\<lparr>req_prompt = ''a'', req_aspect_ratio = ''1:1'', req_images = []\<rparr>] \<and>
   \<not> btnDisabled (run init [PromptInput ''a'', ClickGenerate, ClickNewGeneration, PromptInput ''b'']) \<and>
   requests (run init [PromptInput ''a'', ClickGenerate, ClickNewGeneration, PromptInput ''b'', ClickGenerate]) =
     [\<lparr>req_prompt = ''a'', req_aspect_ratio = ''1:1'', req_images = []\<rparr>,
      \<lparr>req_prompt = ''b'', req_aspect_ratio = ''1:1'', req_images = []\<rparr>]"
  by (simp add: eval_defs)

text \<open>
  Without the reset handler the guard does its work: the flag is set exactly while a
  request is pending, and at most one is.
\<close>

lemma step_busy_inv: "busy_inv s \<Longrightarrow> e \<noteq> ClickNewGeneration \<Longrightarrow> busy_inv (step s e)"
  by (cases e)
    (auto simp: step_def busy_inv_def handler_defs surface_defs addFiles_frame 
      foldl_createPreviewItem_frame Let_def
      split: prod.splits sum.splits health_outcome.splits)

lemma guard_without_reset:
  "ClickNewGeneration \<notin> set es \<Longrightarrow> busy_inv (run init es)"
proof (induction es rule: rev_induct)
  case Nil
  show ?case by (simp add: run_def busy_inv_def init_def)
next
  case (snoc e es)
  then have "busy_inv (run init es)" and "e \<noteq> ClickNewGeneration"
    by auto
  then show ?case by (simp add: run_snoc step_busy_inv)
qed

text \<open>
  On runs without the reset handler the trigger control is enabled exactly when the
  trimmed prompt is non-empty and no request is pending.
\<close>

lemma trigger_without_reset:
  "ClickNewGeneration \<notin> set es \<Longrightarrow>
     (\<not> btnDisabled (run init es)) =
       (trim (promptValue (run init es)) \<noteq> [] \<and> requests (run init es) = [])"
  using run_btn_inv [of es] guard_without_reset [of es]
  by (auto simp add: btn_inv_def busy_inv_def)

lemma in_flight_state:
  "isGenerating (run init [PromptInput ''a'', ClickGenerate])"
  "promptValue (run init [PromptInput ''a'', ClickGenerate]) = ''a''"
  by (simp_all add: eval_defs)

text \<open>
  C4 (as amended). When \<^verbatim>\<open>handleGenerate\<close> is called while the busy flag is set it
  issues no request, whatever the prompt. With a non-empty trimmed prompt the state is
  unchanged; with an empty one the validation guard, which comes first, shows its error
  and nothing else changes.
\<close>

theorem generate_while_busy:
  "isGenerating s \<Longrightarrow>
     requests (handleGenerate s) = requests s \<and>
     handleGenerate s =
       (if trim (promptValue s) = [] then showError ''Please enter a prompt to generate an image.'' s
        else s)"
  by (simp add: handleGenerate_def Let_def showError_def)

theorem generate_while_busy_witness:
  "isGenerating (run init [PromptInput ''a'', ClickGenerate]) \<and>
   requests (handleGenerate (run init [PromptInput ''a'', ClickGenerate])) =
     requests (run init [PromptInput ''a'', ClickGenerate]) \<and>
   handleGenerate (run init [PromptInput ''a'', ClickGenerate]) =
     run init [PromptInput ''a'', ClickGenerate] \<and>
   isGenerating (run init [PromptInput ''a'', ClickGenerate, PromptInput '' '']) \<and>
   handleGenerate (run init [PromptInput ''a'', ClickGenerate, PromptInput '' '']) =
     showError ''Please enter a prompt to generate an image.''
       (run init [PromptInput ''a'', ClickGenerate, PromptInput '' ''])"
proof -
  have blank:
    "isGenerating (run init [PromptInput ''a'', ClickGenerate, PromptInput '' ''])"
    "promptValue (run init [PromptInput ''a'', ClickGenerate, PromptInput '' '']) = '' ''"
    by (simp_all add: eval_defs)
  show ?thesis
    using generate_while_busy [of "run init [PromptInput ''a'', ClickGenerate]"]
      generate_while_busy [of "run init [PromptInput ''a'', ClickGenerate, PromptInput '' '']"]
    by (simp add: in_flight_state blank trim_def js_whitespace_def)
qed

text \<open>
  C4, as stated, fails when the prompt has been emptied while the request is pending: the
  call shows the validation error, so the state changes.
\<close>

theorem empty_prompt_error_while_busy:
  "isGenerating (run init [PromptInput ''a'', ClickGenerate, PromptInput []]) \<and>
   requests (run init [PromptInput ''a'', ClickGenerate, PromptInput []]) \<noteq> [] \<and>
   errorHidden (run init [PromptInput ''a'', ClickGenerate, PromptInput []]) \<and>
   \<not> errorHidden (handleGenerate (run init [PromptInput ''a'', ClickGenerate, PromptInput []])) \<and>
   errorText (handleGenerate (run init [PromptInput ''a'', ClickGenerate, PromptInput []])) =
     ''Please enter a prompt to generate an image.'' \<and>
   handleGenerate (run init [PromptInput ''a'', ClickGenerate, PromptInput []]) \<noteq>
     run init [PromptInput ''a'', ClickGenerate, PromptInput []]"
  by (simp add: eval_defs)

lemma resume_busy:
  "\<not> isGenerating (handleGenerate_resume outcome s)"
  "promptValue (handleGenerate_resume outcome s) = promptValue s"
  "btnDisabled (handleGenerate_resume outcome s) = (trim (promptValue s) = [])"
  "\<not> btnTextHidden (handleGenerate_resume outcome s)"
  "btnLoaderHidden (handleGenerate_resume outcome s)"
  by (simp_all add: handleGenerate_resume_def surface_defs Let_def split: sum.splits)

text \<open>
  C6. When the request settles, whatever the outcome (image, backend error, network
  failure, unparsable body) and whatever state the page is in by then, the
  \<^verbatim>\<open>finally\<close> block leaves the busy flag clear, the loader hidden and the trigger
  control enabled exactly when the trimmed prompt is non-empty.
\<close>

theorem generate_always_clears_busy:
  "\<not> isGenerating (handleGenerate_resume outcome s) \<and>
   promptValue (handleGenerate_resume outcome s) = promptValue s \<and>
   (\<not> btnDisabled (handleGenerate_resume outcome s)) = (trim (promptValue s) \<noteq> []) \<and>
   \<not> btnTextHidden (handleGenerate_resume outcome s) \<and>
   btnLoaderHidden (handleGenerate_resume outcome s)"
  by (simp add: resume_busy)

theorem generate_always_clears_busy_witness:
  "isGenerating (run init [PromptInput ''a'', ClickGenerate]) \<and>
   btnDisabled (run init [PromptInput ''a'', ClickGenerate]) \<and>
   \<not> isGenerating (handleGenerate_resume (NetworkError ''Failed to fetch'') (run init [PromptInput ''a'', ClickGenerate])) \<and>
   \<not> btnDisabled (handleGenerate_resume (NetworkError ''Failed to fetch'') (run init [PromptInput ''a'', ClickGenerate]))"
  using generate_always_clears_busy [of "NetworkError ''Failed to fetch''" "run init [PromptInput ''a'', ClickGenerate]"]
  by (simp add: in_flight_state trim_def js_whitespace_def) (simp add: eval_defs)

subsection \<open>Outcome of a request\<close>

lemma resume_success:
  assumes "response_ok status" "success d = Some True" "image d = Some img" "img \<noteq> []"
  shows "resultImageSrc (handleGenerate_resume (Response status (Json d)) s) = img"
    and "\<not> resultHidden (handleGenerate_resume (Response status (Json d)) s)"
    and "errorHidden (handleGenerate_resume (Response status (Json d)) s) = errorHidden s"
    and "errorText (handleGenerate_resume (Response status (Json d)) s) = errorText s"
  using assms by (simp_all add: handleGenerate_resume_def try_response_def surface_defs Let_def)

lemma resume_thrown:
  assumes "try_response outcome = Inl m"
  shows "\<not> errorHidden (handleGenerate_resume outcome s)"
    and "errorText (handleGenerate_resume outcome s) = js_or m ''An error occurred while generating the image.''"
    and "errorText (handleGenerate_resume outcome s) \<noteq> []"
    and "resultHidden (handleGenerate_resume outcome s) = resultHidden s"
    and "resultImageSrc (handleGenerate_resume outcome s) = resultImageSrc s"
  using assms by (simp_all add: handleGenerate_resume_def surface_defs Let_def js_or_def)

lemma try_response_not_ok:
  "\<not> response_ok status \<Longrightarrow>
     try_response (Response status (Json d)) =
       Inl (case detail d of None \<Rightarrow> ''Failed to generate image''
            | Some t \<Rightarrow> if t = [] then ''Failed to generate image'' else t)"
  by (simp add: try_response_def js_or_def split: option.splits)

lemma try_response_no_image:
  "response_ok status \<Longrightarrow> \<not> (success d = Some True \<and> image d \<noteq> None \<and> image d \<noteq> Some []) \<Longrightarrow>
     try_response (Response status (Json d)) = Inl ''No image was generated''"
  by (auto simp add: try_response_def)

lemma try_response_throws:
  "try_response (NetworkError m) = Inl m"
  "try_response (Response status (Unparsable m)) = Inl m"
  by (simp_all add: try_response_def)

lemma try_response_cases:
  "(\<exists>m. try_response outcome = Inl m) \<or>
   (\<exists>status d img. outcome = Response status (Json d) \<and> response_ok status \<and>
      success d = Some True \<and> image d = Some img \<and> img \<noteq> [])"
  by (cases outcome) (auto simp: try_response_def split: body.splits)

text \<open>
  C5 (as amended). A response with a 2xx status, \<^verbatim>\<open>success\<close> true and a non-empty
  \<^verbatim>\<open>image\<close> puts the image into the result surface and shows it. Every other
  outcome shows a non-empty error message and leaves the result surface as it was: for a
  non-2xx status the message is the response's \<^verbatim>\<open>detail\<close> when that is a non-empty
  string and \<^verbatim>\<open>Failed to generate image\<close> otherwise; for a 2xx status without
  success or image it is \<^verbatim>\<open>No image was generated\<close>, whatever \<^verbatim>\<open>detail\<close> says;
  when the request or the parsing of its body throws it is the message of that error, or
  a fixed fallback when that message is empty.
\<close>

theorem generate_response_handling:
  "(response_ok status \<and> success d = Some True \<and> image d = Some img \<and> img \<noteq> [] \<longrightarrow>
      resultImageSrc (handleGenerate_resume (Response status (Json d)) s) = img \<and>
      \<not> resultHidden (handleGenerate_resume (Response status (Json d)) s) \<and>
      errorHidden (handleGenerate_resume (Response status (Json d)) s) = errorHidden s) \<and>
   (\<not> response_ok status \<and> detail d = Some t \<and> t \<noteq> [] \<longrightarrow>
      \<not> errorHidden (handleGenerate_resume (Response status (Json d)) s) \<and>
      errorText (handleGenerate_resume (Response status (Json d)) s) = t) \<and>
   (\<not> response_ok status \<and> (detail d = None \<or> detail d = Some []) \<longrightarrow>
      \<not> errorHidden (handleGenerate_resume (Response status (Json d)) s) \<and>
      errorText (handleGenerate_resume (Response status (Json d)) s) = ''Failed to generate image'') \<and>
   (response_ok status \<and> \<not> (success d = Some True \<and> image d \<noteq> None \<and> image d \<noteq> Some []) \<longrightarrow>
      \<not> errorHidden (handleGenerate_resume (Response status (Json d)) s) \<and>
      errorText (handleGenerate_resume (Response status (Json d)) s) = ''No image was generated'') \<and>
   (outcome = NetworkError m \<or> outcome = Response status (Unparsable m) \<longrightarrow>
      \<not> errorHidden (handleGenerate_resume outcome s) \<and>
      errorText (handleGenerate_resume outcome s) =
        (if m = [] then ''An error occurred while generating the image.'' else m)) \<and>
   ((\<forall>x. try_response outcome \<noteq> Inr x) \<longrightarrow>
      \<not> errorHidden (handleGenerate_resume outcome s) \<and>
      errorText (handleGenerate_resume outcome s) \<noteq> [] \<and>
      resultHidden (handleGenerate_resume outcome s) = resultHidden s \<and>
      resultImageSrc (handleGenerate_resume outcome s) = resultImageSrc s)"
proof (intro conjI impI)
  assume "response_ok status \<and> success d = Some True \<and> image d = Some img \<and> img \<noteq> []"
  then have ok: "response_ok status" "success d = Some True" "image d = Some img" "img \<noteq> []"
    by simp_all
  show "resultImageSrc (handleGenerate_resume (Response status (Json d)) s) = img"
    using ok by (rule resume_success)
  show "\<not> resultHidden (handleGenerate_resume (Response status (Json d)) s)"
    using ok by (rule resume_success)
  show "errorHidden (handleGenerate_resume (Response status (Json d)) s) = errorHidden s"
    using ok by (rule resume_success)
next
  assume a: "\<not> response_ok status \<and> detail d = Some t \<and> t \<noteq> []"
  then have thrown: "try_response (Response status (Json d)) = Inl t"
    by (simp add: try_response_not_ok)
  show "\<not> errorHidden (handleGenerate_resume (Response status (Json d)) s)"
    using thrown by (rule resume_thrown)
  show "errorText (handleGenerate_resume (Response status (Json d)) s) = t"
    using a resume_thrown(2) [OF thrown] by (simp add: js_or_def)
next
  assume a: "\<not> response_ok status \<and> (detail d = None \<or> detail d = Some [])"
  then have thrown: "try_response (Response status (Json d)) = Inl ''Failed to generate image''"
    by (auto simp add: try_response_not_ok)
  show "\<not> errorHidden (handleGenerate_resume (Response status (Json d)) s)"
    using thrown by (rule resume_thrown)
  show "errorText (handleGenerate_resume (Response status (Json d)) s) = ''Failed to generate image''"
    using resume_thrown(2) [OF thrown] by (simp add: js_or_def)
next
  assume a: "response_ok status \<and> \<not> (success d = Some True \<and> image d \<noteq> None \<and> image d \<noteq> Some [])"
  then have thrown: "try_response (Response status (Json d)) = Inl ''No image was generated''"
    by (simp add: try_response_no_image)
  show "\<not> errorHidden (handleGenerate_resume (Response status (Json d)) s)"
    using thrown by (rule resume_thrown)
  show "errorText (handleGenerate_resume (Response status (Json d)) s) = ''No image was generated''"
    using resume_thrown(2) [OF thrown] by (simp add: js_or_def)
next
  assume "outcome = NetworkError m \<or> outcome = Response status (Unparsable m)"
  then have thrown: "try_response outcome = Inl m"
    by (auto simp add: try_response_throws)
  show "\<not> errorHidden (handleGenerate_resume outcome s)"
    using thrown by (rule resume_thrown)
  show "errorText (handleGenerate_resume outcome s) =
        (if m = [] then ''An error occurred while generating the image.'' else m)"
    using resume_thrown(2) [OF thrown] by (simp add: js_or_def)
next
  assume "\<forall>x. try_response outcome \<noteq> Inr x"
  then obtain m where thrown: "try_response outcome = Inl m"
    by (cases "try_response outcome") auto
  show "\<not> errorHidden (handleGenerate_resume outcome s)"
    using thrown by (rule resume_thrown)
  show "errorText (handleGenerate_resume outcome s) \<noteq> []"
    using thrown by (rule resume_thrown)
  show "resultHidden (handleGenerate_resume outcome s) = resultHidden s"
    using thrown by (rule resume_thrown)
  show "resultImageSrc (handleGenerate_resume outcome s) = resultImageSrc s"
    using thrown by (rule resume_thrown)
qed

theorem generate_response_handling_witness:
  "errorText (handleGenerate_resume (quota_response 500) (run init [PromptInput ''a'', ClickGenerate])) =
     ''quota exceeded'' \<and>
   \<not> errorHidden (handleGenerate_resume (quota_response 500) (run init [PromptInput ''a'', ClickGenerate])) \<and>
   errorText (handleGenerate_resume (quota_response 200) (run init [PromptInput ''a'', ClickGenerate])) =
     ''No image was generated'' \<and>
   errorText (handleGenerate_resume (Response 404 (Json \<lparr>detail = None, success = None, image = None\<rparr>))
       (run init [PromptInput ''a'', ClickGenerate])) =
     ''Failed to generate image'' \<and>
   errorText (handleGenerate_resume (NetworkError []) (run init [PromptInput ''a'', ClickGenerate])) =
     ''An error occurred while generating the image.'' \<and>
   errorText (handleGenerate_resume (Response 200 (Unparsable ''Unexpected token''))
       (run init [PromptInput ''a'', ClickGenerate])) =
     ''Unexpected token'' \<and>
   (\<forall>x. try_response (NetworkError ''Failed to fetch'') \<noteq> Inr x) \<and>
   errorText (handleGenerate_resume (NetworkError ''Failed to fetch'')
       (run init [PromptInput ''a'', ClickGenerate])) \<noteq> [] \<and>
   resultImageSrc (handleGenerate_resume image_response (run init [PromptInput ''a'', ClickGenerate])) =
     ''data:image/png;base64,AA=='' \<and>
   \<not> resultHidden (handleGenerate_resume image_response (run init [PromptInput ''a'', ClickGenerate])) \<and>
   errorHidden (handleGenerate_resume image_response (run init [PromptInput ''a'', ClickGenerate]))"
proof -
  have before: "errorHidden (run init [PromptInput ''a'', ClickGenerate])"
    by (simp add: eval_defs)
  have thrown: "\<forall>x. try_response (NetworkError ''Failed to fetch'') \<noteq> Inr x"
    by (simp add: try_response_throws)
  show ?thesis
    using
      generate_response_handling [where status = 500 and t = "''quota exceeded''"
        and d = "\<lparr>detail = Some ''quota exceeded'', success = Some False, image = None\<rparr>"
        and s = "run init [PromptInput ''a'', ClickGenerate]"]
      generate_response_handling [where status = 200
        and d = "\<lparr>detail = Some ''quota exceeded'', success = Some False, image = None\<rparr>"
        and s = "run init [PromptInput ''a'', ClickGenerate]"]
      generate_response_handling [where status = 404
        and d = "\<lparr>detail = None, success = None, image = None\<rparr>"
        and s = "run init [PromptInput ''a'', ClickGenerate]"]
      generate_response_handling [where outcome = "NetworkError []" and m = "[]"
        and s = "run init [PromptInput ''a'', ClickGenerate]"]
      generate_response_handling [where outcome = "Response 200 (Unparsable ''Unexpected token'')"
        and status = 200 and m = "''Unexpected token''"
        and s = "run init [PromptInput ''a'', ClickGenerate]"]
      generate_response_handling [where outcome = "NetworkError ''Failed to fetch''"
        and s = "run init [PromptInput ''a'', ClickGenerate]"]
      generate_response_handling [where status = 200 and img = "''data:image/png;base64,AA==''"
        and d = "\<lparr>detail = None, success = Some True, image = Some ''data:image/png;base64,AA==''\<rparr>"
        and s = "run init [PromptInput ''a'', ClickGenerate]"]
      before thrown
    by (simp add: quota_response_def image_response_def response_ok_def)
qed

text \<open>
  C5, as stated, fails for a 2xx response that carries a \<^verbatim>\<open>detail\<close>: the message
  shown is the fixed one, not the detail.
\<close>

theorem detail_ignored_on_ok_status:
  "errorText (run init [PromptInput ''a'', ClickGenerate,
      GenerateDone 0 (Response 200 (Json \<lparr>detail = Some ''quota exceeded'', success = Some False, image = None\<rparr>))]) =
     ''No image was generated'' \<and>
   errorText (run init [PromptInput ''a'', ClickGenerate,
      GenerateDone 0 (Response 200 (Json \<lparr>detail = Some ''quota exceeded'', success = Some False, image = None\<rparr>))]) \<noteq>
     ''quota exceeded'' \<and>
   \<not> errorHidden (run init [PromptInput ''a'', ClickGenerate,
      GenerateDone 0 (Response 200 (Json \<lparr>detail = Some ''quota exceeded'', success = Some False, image = None\<rparr>))])"
  by (simp add: eval_defs)

subsection \<open>Removal and the preview grid\<close>

lemma removeFile_fields:
  "uploadedFiles (removeFile i s) = js_splice1 i (uploadedFiles s)"
  "previewGrid (removeFile i s) = []"
  "readers (removeFile i s) =
     readers s @ zip (js_splice1 i (uploadedFiles s)) [0 ..< length (js_splice1 i (uploadedFiles s))]"
  by (simp_all add: removeFile_def rebuildPreviewGrid_def updateGenerateButton_def Let_def
      foldl_createPreviewItem_frame foldl_createPreviewItem_readers)

lemma length_js_splice1: "i < length xs \<Longrightarrow> length (js_splice1 i xs) = length xs - 1"
  by (auto simp add: js_splice1_def)

lemma indexed_fst_snd:
  "map fst (indexed s) = uploadedFiles s" "map snd (indexed s) = [0 ..< length (uploadedFiles s)]"
  by (simp_all add: indexed_def)

lemma three_added:
  "uploadedFiles (addFiles [png ''a'', png ''b'', png ''c''] init) = [png ''a'', png ''b'', png ''c'']"
  "readers (addFiles [png ''a'', png ''b'', png ''c''] init) = [(png ''a'', 0), (png ''b'', 1), (png ''c'', 2)]"
  "previewGrid (addFiles [png ''a'', png ''b'', png ''c''] init) = []"
  by (simp_all add: addFiles_uploaded addFiles_readers addFiles_frame js_slice0_def MAX_FILES_def init_def eval_nat_numeral)

lemma reader_onload_fields:
  "k < length (readers s) \<Longrightarrow> rendered (reader_onload k s) = rendered s @ [readers s ! k]"
  "k < length (readers s) \<Longrightarrow> readers (reader_onload k s) = take k (readers s) @ drop (Suc k) (readers s)"
  "uploadedFiles (reader_onload k s) = uploadedFiles s"
  by (simp_all add: reader_onload_def rendered_def Let_def split: prod.splits)

lemma run_decode_oldest_first:
  "length (readers s) = n \<Longrightarrow>
     rendered (run s (replicate n (DecodeDone 0))) = rendered s @ readers s \<and>
     readers (run s (replicate n (DecodeDone 0))) = [] \<and>
     uploadedFiles (run s (replicate n (DecodeDone 0))) = uploadedFiles s"
proof (induction n arbitrary: s)
  case 0
  then show ?case by (simp add: run_def)
next
  case (Suc n)
  then obtain r rs where rs: "readers s = r # rs"
    by (cases "readers s") auto
  have pending: "0 < length (readers s)"
    using rs by simp
  have "length (readers (reader_onload 0 s)) = n"
    using Suc.prems rs by (simp add: reader_onload_fields(2) [OF pending])
  from Suc.IH [OF this] show ?case
    using rs by (simp add: run_def step_def reader_onload_fields(1,2) [OF pending] reader_onload_fields(3))
qed

lemma rendered_files: "map item_file (previewGrid s) = map fst (rendered s)"
  by (simp add: rendered_def comp_def)

lemma indexed_addFiles:
  "indexed (addFiles files s) =
     indexed s @ zip (js_slice0 files (MAX_FILES - int (length (uploadedFiles s))))
       [length (uploadedFiles s) ..<
        length (uploadedFiles s) + length (js_slice0 files (MAX_FILES - int (length (uploadedFiles s))))]"
proof -
  let ?n = "length (uploadedFiles s)"
  let ?new = "js_slice0 files (MAX_FILES - int ?n)"
  have "[0 ..< ?n + length ?new] = [0 ..< ?n] @ [?n ..< ?n + length ?new]"
    by (rule upt_add_eq_append) simp
  then show ?thesis
    by (simp add: indexed_def addFiles_uploaded)
qed

lemma addFiles_in_step:
  "rendered s @ readers s = indexed s \<Longrightarrow>
     rendered (addFiles files s) @ readers (addFiles files s) = indexed (addFiles files s)"
  by (simp add: indexed_addFiles addFiles_readers) (simp add: rendered_def addFiles_frame)

lemma add_all_in_step:
  "rendered (add_all batches init) @ readers (add_all batches init) = indexed (add_all batches init)"
proof (induction batches rule: rev_induct)
  case Nil
  show ?case by (simp add: add_all_def rendered_def indexed_def init_def)
next
  case (snoc files batches)
  then show ?case by (simp add: add_all_snoc addFiles_in_step)
qed

text \<open>
  C9 (as amended). The grid lists the items in the order in which their decodes complete:
  a completing decode appends its item, with the index given when the decode was started,
  after the items already rendered, and leaves the attachment collection alone. When the
  rendered items followed by the pending decodes match the attachment collection (as after
  any sequence of additions to the empty collection) and the decodes complete oldest first,
  the grid ends up in attachment order.
\<close>

theorem preview_order_is_completion_order:
  "(k < length (readers s) \<longrightarrow>
      rendered (reader_onload k s) = rendered s @ [readers s ! k] \<and>
      uploadedFiles (reader_onload k s) = uploadedFiles s) \<and>
   (rendered s @ readers s = indexed s \<longrightarrow>
      rendered (decode_in_order s) = indexed s \<and>
      map item_file (previewGrid (decode_in_order s)) = uploadedFiles (decode_in_order s) \<and>
      readers (decode_in_order s) = [])"
  using run_decode_oldest_first [of s "length (readers s)"]
  by (simp add: reader_onload_fields decode_in_order_def rendered_files indexed_fst_snd)

lemma two_added:
  "uploadedFiles (addFiles [png ''a'', png ''b''] init) = [png ''a'', png ''b'']"
  "readers (addFiles [png ''a'', png ''b''] init) = [(png ''a'', 0), (png ''b'', 1)]"
  "previewGrid (addFiles [png ''a'', png ''b''] init) = []"
  by (simp_all add: addFiles_uploaded addFiles_readers addFiles_frame js_slice0_def MAX_FILES_def init_def eval_nat_numeral)

theorem preview_order_is_completion_order_witness:
  "(1::nat) < length (readers (addFiles [png ''a'', png ''b''] init)) \<and>
   rendered (reader_onload 1 (addFiles [png ''a'', png ''b''] init)) = [(png ''b'', 1)] \<and>
   rendered (addFiles [png ''a'', png ''b''] init) @ readers (addFiles [png ''a'', png ''b''] init) =
     indexed (addFiles [png ''a'', png ''b''] init) \<and>
   rendered (decode_in_order (addFiles [png ''a'', png ''b''] init)) = [(png ''a'', 0), (png ''b'', 1)]"
proof -
  have none: "rendered (addFiles [png ''a'', png ''b''] init) = []"
    by (simp add: rendered_def two_added)
  have ix: "indexed (addFiles [png ''a'', png ''b''] init) = [(png ''a'', 0), (png ''b'', 1)]"
    by (simp add: indexed_def two_added eval_nat_numeral)
  show ?thesis
    using preview_order_is_completion_order [of 1 "addFiles [png ''a'', png ''b''] init"]
    by (simp add: none ix two_added)
qed

text \<open>
  C9, as stated for every completion order, fails: two files added, the decode of the
  second completing first, and the grid shows the second file before the first.
\<close>

theorem late_decode_reorders_grid:
  "uploadedFiles (run init [FileSelect [png ''a'', png ''b''], DecodeDone 1, DecodeDone 0]) =
     [png ''a'', png ''b''] \<and>
   map item_file (previewGrid (run init [FileSelect [png ''a'', png ''b''], DecodeDone 1, DecodeDone 0])) =
     [png ''b'', png ''a'']"
  by (simp add: run_def step_def handleFileSelect_def two_added reader_onload_def Let_def)

subsection \<open>Removal while decodes are pending\<close>

text \<open>
  When no decode is pending, a removal at a valid index keeps the other attachments in
  order, and the decodes started by the rebuild, and the items they render, carry the
  positions 0, 1, ..., count - 2 in attachment order.
\<close>

lemma removeFile_nothing_pending:
  "i < length (uploadedFiles s) \<Longrightarrow> readers s = [] \<Longrightarrow>
     uploadedFiles (removeFile i s) = take i (uploadedFiles s) @ drop (Suc i) (uploadedFiles s) \<and>
     previewGrid (removeFile i s) = [] \<and>
     readers (removeFile i s) =
       zip (take i (uploadedFiles s) @ drop (Suc i) (uploadedFiles s)) [0 ..< length (uploadedFiles s) - 1] \<and>
     rendered (decode_in_order (removeFile i s)) =
       zip (take i (uploadedFiles s) @ drop (Suc i) (uploadedFiles s)) [0 ..< length (uploadedFiles s) - 1]"
proof -
  assume valid: "i < length (uploadedFiles s)" and idle: "readers s = []"
  have len: "length (js_splice1 i (uploadedFiles s)) = length (uploadedFiles s) - 1"
    using valid by (rule length_js_splice1)
  have pending: "readers (removeFile i s) =
      zip (js_splice1 i (uploadedFiles s)) [0 ..< length (uploadedFiles s) - 1]"
    using idle len by (simp add: removeFile_fields)
  have "rendered (removeFile i s) = []"
    by (simp add: rendered_def removeFile_fields)
  then have "rendered (decode_in_order (removeFile i s)) = readers (removeFile i s)"
    using run_decode_oldest_first [of "removeFile i s" "length (readers (removeFile i s))"]
    by (simp add: decode_in_order_def)
  then show ?thesis
    using pending by (simp add: removeFile_fields js_splice1_def)
qed

lemma three_selected:
  "uploadedFiles (run init [FileSelect [png ''a'', png ''b'', png ''c'']]) = [png ''a'', png ''b'', png ''c'']"
  "readers (run init [FileSelect [png ''a'', png ''b'', png ''c'']]) = [(png ''a'', 0), (png ''b'', 1), (png ''c'', 2)]"
  "previewGrid (run init [FileSelect [png ''a'', png ''b'', png ''c'']]) = []"
  by (simp_all add: run_def step_def handleFileSelect_def three_added)

lemma removal_with_pending:
  "uploadedFiles (run init [FileSelect [png ''a'', png ''b'', png ''c''], DecodeDone 0, ClickRemove 0]) =
     [png ''b'', png ''c'']"
  "readers (run init [FileSelect [png ''a'', png ''b'', png ''c''], DecodeDone 0, ClickRemove 0]) =
     [(png ''b'', 1), (png ''c'', 2), (png ''b'', 0), (png ''c'', 1)]"
  "previewGrid (run init [FileSelect [png ''a'', png ''b'', png ''c''], DecodeDone 0, ClickRemove 0]) = []"
  by (simp_all add: run_def step_def handleFileSelect_def three_added reader_onload_def Let_def
      removeFile_fields js_splice1_def eval_nat_numeral)

text \<open>
  C7. After a removal at a valid index the remaining attachments should keep their order
  and carry the indices 0, ..., count - 2, each once. \<^verbatim>\<open>rebuildPreviewGrid\<close> empties the
  grid and starts a decode per remaining attachment with its new index, but decodes started
  before the removal are still pending and keep the old indices. Three files selected, the
  first rendered and removed while the other two are decoding: the collection is b, c; the
  pending decodes carry the indices 1, 2, 0, 1; once they complete the grid shows b and c
  twice; and the remove control of the first item, which shows b, removes c.
\<close>

theorem stale_decodes_break_reindexing:
  "item_index (previewGrid (run init [FileSelect [png ''a'', png ''b'', png ''c''], DecodeDone 0]) ! 0) = 0 \<and>
   uploadedFiles (run init [FileSelect [png ''a'', png ''b'', png ''c''], DecodeDone 0, ClickRemove 0]) =
     [png ''b'', png ''c''] \<and>
   readers (run init [FileSelect [png ''a'', png ''b'', png ''c''], DecodeDone 0, ClickRemove 0]) =
     [(png ''b'', 1), (png ''c'', 2), (png ''b'', 0), (png ''c'', 1)] \<and>
   rendered (run init [FileSelect [png ''a'', png ''b'', png ''c''], DecodeDone 0, ClickRemove 0,
                       DecodeDone 0, DecodeDone 0, DecodeDone 0, DecodeDone 0]) =
     [(png ''b'', 1), (png ''c'', 2), (png ''b'', 0), (png ''c'', 1)] \<and>
   uploadedFiles (run init [FileSelect [png ''a'', png ''b'', png ''c''], DecodeDone 0, ClickRemove 0,
                       DecodeDone 0, DecodeDone 0, DecodeDone 0, DecodeDone 0, ClickRemove 0]) =
     [png ''b'']"
  by (simp add: run_def step_def handleFileSelect_def three_added reader_onload_def Let_def
      removeFile_fields js_splice1_def rendered_def eval_nat_numeral)

end
